theory Spec2Isabelle
  imports Complex_Main "HOL-Library.Word"
begin

section \<open>JavaScript values and effects\<close>

text \<open>
  Exceptions of the source are values: \<open>RangeError\<close> is what Node's \<open>Buffer\<close> accessors
  throw on an offset or a value out of range (\<open>ERR_OUT_OF_RANGE\<close>), \<open>Error msg\<close> is
  \<open>throw new Error(msg)\<close>.
\<close>

datatype error = RangeError | Error string

text \<open>
  Both source files take \<open>assert\<close> from the module \<open>console\<close>
  (\<open>import { assert } from "console"\<close>). \<open>console.assert(cond, msg)\<close> never throws: when
  \<open>cond\<close> is false it prints one line and execution goes on. \<open>console_assert\<close> gives the
  lines printed.
\<close>

definition console_assert :: "bool \<Rightarrow> string option \<Rightarrow> string list" where
  "console_assert cond msg =
     (if cond then []
      else (case msg of None \<Rightarrow> [''Assertion failed'']
                      | Some m \<Rightarrow> [''Assertion failed: '' @ m]))"

text \<open>
  A JavaScript array of numbers. \<open>None\<close> is \<open>undefined\<close>: a hole of \<open>new Array(n)\<close>,
  or what a read beyond the length gives. A write beyond the length extends the array.
\<close>

type_synonym jsarray = "int option list"

definition arr_get :: "jsarray \<Rightarrow> nat \<Rightarrow> int option" where
  "arr_get xs i = (if i < length xs then xs ! i else None)"

definition arr_set :: "jsarray \<Rightarrow> nat \<Rightarrow> int \<Rightarrow> jsarray" where
  "arr_set xs i v =
     (if i < length xs then xs[i := Some v]
      else xs @ replicate (i - length xs) None @ [Some v])"

text \<open>
  Arrays are objects: they live in a heap and are reached through references, so that two
  fields holding arrays may or may not share one. The console is the list of lines printed
  so far.
\<close>

record world =
  heap :: "nat \<Rightarrow> jsarray"
  next_ref :: nat
  console :: "string list"

definition alloc :: "jsarray \<Rightarrow> world \<Rightarrow> nat \<times> world" where
  "alloc a w = (next_ref w, w\<lparr>heap := (heap w)(next_ref w := a), next_ref := Suc (next_ref w)\<rparr>)"

section \<open>pioneer.ts: the layer state tracker\<close>

datatype LayerIndex = Layer1 | Layer2 | Layer3 | Layer4 | LayerA | LayerB | LayerM | LayerC

fun LayerIndex_value :: "LayerIndex \<Rightarrow> nat" where
  "LayerIndex_value Layer1 = 1"
| "LayerIndex_value Layer2 = 2"
| "LayerIndex_value Layer3 = 3"
| "LayerIndex_value Layer4 = 4"
| "LayerIndex_value LayerA = 5"
| "LayerIndex_value LayerB = 6"
| "LayerIndex_value LayerM = 7"
| "LayerIndex_value LayerC = 8"

text \<open>
  \<open>class PioneerDJState\<close>: the private fields \<open>_trackID\<close> and \<open>_status\<close> hold references
  to two arrays, each made by \<open>new Array(8).fill(-1)\<close>.
\<close>

record PioneerDJState =
  trackID_field :: nat
  status_field :: nat

definition new_PioneerDJState :: "world \<Rightarrow> PioneerDJState \<times> world" where
  "new_PioneerDJState w =
     (let (t, w1) = alloc (replicate 8 (Some (- 1))) w;
          (s, w2) = alloc (replicate 8 (Some (- 1))) w1
      in (\<lparr>trackID_field = t, status_field = s\<rparr>, w2))"

definition trackID :: "PioneerDJState \<Rightarrow> LayerIndex \<Rightarrow> world \<Rightarrow> int option" where
  "trackID this idx w = arr_get (heap w (trackID_field this)) (LayerIndex_value idx - 1)"

definition status :: "PioneerDJState \<Rightarrow> LayerIndex \<Rightarrow> world \<Rightarrow> int option" where
  "status this idx w = arr_get (heap w (status_field this)) (LayerIndex_value idx - 1)"

text \<open>
  The loop of \<open>update\<close>: \<open>for (let i = 0; i < source.length; i++)\<close>, comparing with \<open>!==\<close>,
  writing through the reference \<open>field\<close> and pushing \<open>i + 1\<close>.
\<close>

function update_loop :: "nat \<Rightarrow> int list \<Rightarrow> nat \<Rightarrow> nat list \<Rightarrow> world \<Rightarrow> nat list \<times> world" where
  "update_loop field source i changedLayers w =
     (if i < length source then
        (if arr_get (heap w field) i \<noteq> Some (source ! i)
         then update_loop field source (i + 1) (changedLayers @ [i + 1])
                (w\<lparr>heap := (heap w)(field := arr_set (heap w field) i (source ! i))\<rparr>)
         else update_loop field source (i + 1) changedLayers w)
      else (changedLayers, w))"
  by pat_completeness auto
termination
  by (relation "measure (\<lambda>(field, source, i, changedLayers, w). length source - i)") auto

declare update_loop.simps [simp del]

definition update :: "nat \<Rightarrow> int list \<Rightarrow> world \<Rightarrow> nat list \<times> world" where
  "update field source w =
     update_loop field source 0 []
       (w\<lparr>console := console w @
            console_assert (length source = 8) (Some ''there must be data for exactly 8 layers'')\<rparr>)"

definition updateTrackIDs :: "PioneerDJState \<Rightarrow> int list \<Rightarrow> world \<Rightarrow> nat list \<times> world" where
  "updateTrackIDs this trackIDs w = update (trackID_field this) trackIDs w"

definition updateStatus :: "PioneerDJState \<Rightarrow> int list \<Rightarrow> world \<Rightarrow> nat list \<times> world" where
  "updateStatus this statuses w = update (status_field this) statuses w"

text \<open>A world with nothing allocated and nothing printed.\<close>

definition empty_world :: world where
  "empty_world = \<lparr>heap = (\<lambda>_. []), next_ref = 0, console = []\<rparr>"

section \<open>network.ts: buffers\<close>

text \<open>
  A Node \<open>Buffer\<close> is a sequence of bytes. Every packet object holds one in
  \<open>this.buffer\<close>; \<open>read()\<close> and \<open>write()\<close> work on it and may print to the console.
  A method is a function from the state before (the buffer's bytes and the console) to
  its outcome (\<open>Inl\<close> the exception thrown, \<open>Inr\<close> the value returned) and the state
  after, so that what was written or printed before an exception stays.
  JavaScript numbers are \<open>int\<close>: every number the codec handles is an integer.
  Strings have 8-bit characters; the \<open>"ascii"\<close> encoding of Node keeps the low 7 bits of
  a byte on decoding and the low 8 bits of a character on encoding.
\<close>

type_synonym byte = "8 word"

type_synonym jsstate = "byte list \<times> string list"

type_synonym 'a js = "jsstate \<Rightarrow> (error + 'a) \<times> jsstate"

definition return :: "'a \<Rightarrow> 'a js" where
  "return x s = (Inr x, s)"

definition throw :: "error \<Rightarrow> 'a js" where
  "throw e s = (Inl e, s)"

definition andThen :: "'a js \<Rightarrow> ('a \<Rightarrow> 'b js) \<Rightarrow> 'b js" where
  "andThen m f s = (case m s of (Inl e, s') \<Rightarrow> (Inl e, s') | (Inr x, s') \<Rightarrow> f x s')"

definition assert :: "bool \<Rightarrow> unit js" where
  "assert cond s = (Inr (), (fst s, snd s @ console_assert cond None))"

definition console_log :: "string \<Rightarrow> unit js" where
  "console_log line s = (Inr (), (fst s, snd s @ [line]))"

text \<open>The loop \<open>for (let n = 0; n < 8; n++)\<close> filling an array: one body per index.\<close>

fun for_each :: "(nat \<Rightarrow> 'a js) \<Rightarrow> nat list \<Rightarrow> 'a list js" where
  "for_each body [] = return []"
| "for_each body (n # ns) =
     andThen (body n) (\<lambda>x. andThen (for_each body ns) (\<lambda>xs. return (x # xs)))"

definition readUInt8 :: "nat \<Rightarrow> int js" where
  "readUInt8 offset s =
     (if offset < length (fst s) then (Inr (uint (fst s ! offset)), s)
      else (Inl RangeError, s))"

definition readUInt16LE :: "nat \<Rightarrow> int js" where
  "readUInt16LE offset s =
     (if offset + 1 < length (fst s)
      then (Inr (uint (fst s ! offset) + uint (fst s ! (offset + 1)) * 2 ^ 8), s)
      else (Inl RangeError, s))"

definition readUInt32LE :: "nat \<Rightarrow> int js" where
  "readUInt32LE offset s =
     (if offset + 3 < length (fst s)
      then (Inr (uint (fst s ! offset) + uint (fst s ! (offset + 1)) * 2 ^ 8
                 + uint (fst s ! (offset + 2)) * 2 ^ 16 + uint (fst s ! (offset + 3)) * 2 ^ 24), s)
      else (Inl RangeError, s))"

text \<open>
  The writers check the value first, then the offset, and throw a range error on either.
  The offset is a number like any other: \<open>TCNetOptInPacket.write\<close> passes field values.
\<close>

definition writeUInt8 :: "int \<Rightarrow> int \<Rightarrow> unit js" where
  "writeUInt8 v offset s =
     (if v < 0 \<or> 255 < v then (Inl RangeError, s)
      else if offset < 0 \<or> int (length (fst s)) \<le> offset then (Inl RangeError, s)
      else (Inr (), ((fst s)[nat offset := word_of_int v], snd s)))"

definition writeUInt16LE :: "int \<Rightarrow> int \<Rightarrow> unit js" where
  "writeUInt16LE v offset s =
     (if v < 0 \<or> 65535 < v then (Inl RangeError, s)
      else if offset < 0 \<or> int (length (fst s)) \<le> offset + 1 then (Inl RangeError, s)
      else (Inr (), ((fst s)[nat offset := word_of_int v,
                             nat offset + 1 := word_of_int (v div 2 ^ 8)], snd s)))"

definition writeUInt32LE :: "int \<Rightarrow> int \<Rightarrow> unit js" where
  "writeUInt32LE v offset s =
     (if v < 0 \<or> 4294967295 < v then (Inl RangeError, s)
      else if offset < 0 \<or> int (length (fst s)) \<le> offset + 3 then (Inl RangeError, s)
      else (Inr (), ((fst s)[nat offset := word_of_int v,
                             nat offset + 1 := word_of_int (v div 2 ^ 8),
                             nat offset + 2 := word_of_int (v div 2 ^ 16),
                             nat offset + 3 := word_of_int (v div 2 ^ 24)], snd s)))"

text \<open>\<open>buffer.slice(start, stop).toString("ascii")\<close>: the slice is clamped to the buffer.\<close>

definition toString_ascii :: "byte list \<Rightarrow> string" where
  "toString_ascii bs = map (\<lambda>b. char_of (uint b mod 128)) bs"

definition slice_ascii :: "nat \<Rightarrow> nat \<Rightarrow> string js" where
  "slice_ascii start stop s = (Inr (toString_ascii (take (stop - start) (drop start (fst s)))), s)"

text \<open>
  \<open>buffer.write(text, offset, "ascii")\<close>: throws when the offset is beyond the buffer,
  otherwise writes as many characters as fit.
\<close>

definition write_ascii :: "string \<Rightarrow> nat \<Rightarrow> unit js" where
  "write_ascii txt offset s =
     (if length (fst s) < offset then (Inl RangeError, s)
      else (Inr (), (take (length (fst s))
                       (take offset (fst s) @ map of_char txt @ drop (offset + length txt) (fst s)),
                     snd s)))"

definition padEnd :: "string \<Rightarrow> nat \<Rightarrow> char \<Rightarrow> string" where
  "padEnd txt n c = txt @ replicate (n - length txt) c"

definition NUL :: char where
  "NUL = char_of (0::nat)"

text \<open>
  \<open>.replace(/\0.*$/g, "")\<close>: \<open>.\<close> does not match a line terminator and \<open>$\<close> matches at the
  end of the input only, so a NUL starts a match exactly when no line feed or carriage return
  follows it; the match then runs to the end of the string.
\<close>

definition line_terminator :: "char \<Rightarrow> bool" where
  "line_terminator c = (c = char_of (10::nat) \<or> c = char_of (13::nat))"

fun replace_nul_tail :: "string \<Rightarrow> string" where
  "replace_nul_tail [] = []"
| "replace_nul_tail (c # cs) =
     (if c = NUL \<and> \<not> list_ex line_terminator cs then [] else c # replace_nul_tail cs)"

text \<open>\<open>.replace(/\x00/g, "")\<close> and \<open>.trimEnd()\<close> (on 7-bit characters).\<close>

definition replace_nul_all :: "string \<Rightarrow> string" where
  "replace_nul_all txt = filter (\<lambda>c. c \<noteq> NUL) txt"

definition white_space :: "char \<Rightarrow> bool" where
  "white_space c = (of_char c \<in> {9, 10, 11, 12, 13, 32 :: nat})"

definition trimEnd :: "string \<Rightarrow> string" where
  "trimEnd txt = rev (dropWhile white_space (rev txt))"

text \<open>A number printed by string concatenation, in decimal.\<close>

fun digits :: "nat \<Rightarrow> string" where
  "digits n = (if n < 10 then [char_of (48 + n)] else digits (n div 10) @ [char_of (48 + n mod 10)])"

declare digits.simps [simp del]

definition number_toString :: "int \<Rightarrow> string" where
  "number_toString v = (if v < 0 then CHR ''-'' # digits (nat (- v)) else digits (nat v))"

section \<open>network.ts: the management header\<close>

definition MAJOR_VERSION :: int where
  "MAJOR_VERSION = 3"

definition MAGIC_HEADER :: string where
  "MAGIC_HEADER = ''TCN''"

record TCNetManagementHeader =
  nodeId_Header :: int
  minorVersion_Header :: int
  messageType_Header :: int
  nodeName_Header :: string
  seq_Header :: int
  nodeType_Header :: int
  nodeOptions_Header :: int
  timestamp_Header :: int

definition TCNetManagementHeader_read :: "TCNetManagementHeader js" where
  "TCNetManagementHeader_read =
     andThen (readUInt16LE 0) (\<lambda>nodeId.
     andThen (readUInt8 2) (\<lambda>major.
     andThen (assert (major = MAJOR_VERSION)) (\<lambda>_.
     andThen (readUInt8 3) (\<lambda>minorVersion.
     andThen (slice_ascii 4 7) (\<lambda>magic.
     andThen (assert (magic = MAGIC_HEADER)) (\<lambda>_.
     andThen (readUInt8 7) (\<lambda>messageType.
     andThen (slice_ascii 8 16) (\<lambda>name.
     andThen (readUInt8 16) (\<lambda>seq.
     andThen (readUInt8 17) (\<lambda>nodeType.
     andThen (readUInt16LE 18) (\<lambda>nodeOptions.
     andThen (readUInt32LE 20) (\<lambda>timestamp.
     return \<lparr>nodeId_Header = nodeId, minorVersion_Header = minorVersion,
             messageType_Header = messageType, nodeName_Header = replace_nul_tail name,
             seq_Header = seq, nodeType_Header = nodeType, nodeOptions_Header = nodeOptions,
             timestamp_Header = timestamp\<rparr>))))))))))))"

definition TCNetManagementHeader_write :: "TCNetManagementHeader \<Rightarrow> unit js" where
  "TCNetManagementHeader_write this =
     andThen (assert (length (nodeName_Header this) \<le> 8)) (\<lambda>_.
     andThen (writeUInt16LE (nodeId_Header this) 0) (\<lambda>_.
     andThen (writeUInt8 MAJOR_VERSION 2) (\<lambda>_.
     andThen (writeUInt8 (minorVersion_Header this) 3) (\<lambda>_.
     andThen (write_ascii MAGIC_HEADER 4) (\<lambda>_.
     andThen (writeUInt8 (messageType_Header this) 7) (\<lambda>_.
     andThen (write_ascii (padEnd (nodeName_Header this) 8 NUL) 8) (\<lambda>_.
     andThen (writeUInt8 (seq_Header this) 16) (\<lambda>_.
     andThen (writeUInt8 (nodeType_Header this) 17) (\<lambda>_.
     andThen (writeUInt16LE (nodeOptions_Header this) 18) (\<lambda>_.
     writeUInt32LE (timestamp_Header this) 20))))))))))"

section \<open>network.ts: the packets\<close>

record TCNetOptInPacket =
  nodeCount_OptIn :: int
  nodeListenerPort_OptIn :: int
  uptime_OptIn :: int
  vendorName_OptIn :: string
  appName_OptIn :: string
  majorVersion_OptIn :: int
  minorVersion_OptIn :: int
  bugVersion_OptIn :: int

definition TCNetOptInPacket_read :: "TCNetOptInPacket js" where
  "TCNetOptInPacket_read =
     andThen (readUInt16LE 24) (\<lambda>nodeCount.
     andThen (readUInt16LE 26) (\<lambda>nodeListenerPort.
     andThen (readUInt16LE 28) (\<lambda>uptime.
     andThen (slice_ascii 32 48) (\<lambda>vendorName.
     andThen (slice_ascii 48 64) (\<lambda>appName.
     andThen (readUInt8 64) (\<lambda>majorVersion.
     andThen (readUInt8 65) (\<lambda>minorVersion.
     andThen (readUInt8 66) (\<lambda>bugVersion.
     return \<lparr>nodeCount_OptIn = nodeCount, nodeListenerPort_OptIn = nodeListenerPort,
             uptime_OptIn = uptime, vendorName_OptIn = replace_nul_tail vendorName,
             appName_OptIn = replace_nul_tail appName, majorVersion_OptIn = majorVersion,
             minorVersion_OptIn = minorVersion, bugVersion_OptIn = bugVersion\<rparr>))))))))"

text \<open>
  The last three calls are \<open>this.buffer.writeUInt8(64, this.majorVersion)\<close> and so on:
  the first argument of \<open>writeUInt8\<close> is the value and the second the offset.
\<close>

definition TCNetOptInPacket_write :: "TCNetOptInPacket \<Rightarrow> unit js" where
  "TCNetOptInPacket_write this =
     andThen (assert (length (vendorName_OptIn this) \<le> 16)) (\<lambda>_.
     andThen (assert (length (appName_OptIn this) \<le> 16)) (\<lambda>_.
     andThen (writeUInt16LE (nodeCount_OptIn this) 24) (\<lambda>_.
     andThen (writeUInt16LE (nodeListenerPort_OptIn this) 26) (\<lambda>_.
     andThen (writeUInt16LE (uptime_OptIn this) 28) (\<lambda>_.
     andThen (write_ascii (padEnd (vendorName_OptIn this) 16 NUL) 32) (\<lambda>_.
     andThen (write_ascii (padEnd (appName_OptIn this) 16 NUL) 48) (\<lambda>_.
     andThen (writeUInt8 64 (majorVersion_OptIn this)) (\<lambda>_.
     andThen (writeUInt8 65 (minorVersion_OptIn this)) (\<lambda>_.
     writeUInt8 66 (bugVersion_OptIn this))))))))))"

definition TCNetOptInPacket_length :: int where
  "TCNetOptInPacket_length = 68"

record TCNetOptOutPacket =
  nodeCount_OptOut :: int
  nodeListenerPort_OptOut :: int

definition TCNetOptOutPacket_read :: "TCNetOptOutPacket js" where
  "TCNetOptOutPacket_read =
     andThen (readUInt16LE 24) (\<lambda>nodeCount.
     andThen (readUInt16LE 26) (\<lambda>nodeListenerPort.
     return \<lparr>nodeCount_OptOut = nodeCount, nodeListenerPort_OptOut = nodeListenerPort\<rparr>))"

definition TCNetOptOutPacket_write :: "TCNetOptOutPacket \<Rightarrow> unit js" where
  "TCNetOptOutPacket_write this =
     andThen (writeUInt16LE (nodeCount_OptOut this) 24) (\<lambda>_.
     writeUInt16LE (nodeListenerPort_OptOut this) 26)"

definition TCNetOptOutPacket_length :: int where
  "TCNetOptOutPacket_length = 28"

record TCNetStatusPacket =
  nodeCount_Status :: int
  nodeListenerPort_Status :: int
  layerSource_Status :: "int list"
  layerStatus_Status :: "int list"
  trackID_Status :: "int list"
  smpteMode_Status :: int
  autoMasterMode_Status :: int
  layerName_Status :: "string list"

definition TCNetStatusPacket_read :: "TCNetStatusPacket js" where
  "TCNetStatusPacket_read =
     andThen (readUInt16LE 24) (\<lambda>nodeCount.
     andThen (readUInt16LE 26) (\<lambda>nodeListenerPort.
     andThen (for_each (\<lambda>n. readUInt8 (34 + n)) [0..<8]) (\<lambda>layerSource.
     andThen (for_each (\<lambda>n. readUInt8 (42 + n)) [0..<8]) (\<lambda>layerStatus.
     andThen (for_each (\<lambda>n. readUInt32LE (50 + n * 4)) [0..<8]) (\<lambda>trackIDs.
     andThen (readUInt8 83) (\<lambda>smpteMode.
     andThen (readUInt8 84) (\<lambda>autoMasterMode.
     andThen (for_each (\<lambda>n. andThen (slice_ascii (172 + n * 16) (172 + (n + 1) * 16))
                                  (\<lambda>name. return (replace_nul_tail name))) [0..<8]) (\<lambda>layerName.
     return \<lparr>nodeCount_Status = nodeCount, nodeListenerPort_Status = nodeListenerPort,
             layerSource_Status = layerSource, layerStatus_Status = layerStatus,
             trackID_Status = trackIDs, smpteMode_Status = smpteMode,
             autoMasterMode_Status = autoMasterMode, layerName_Status = layerName\<rparr>))))))))"

definition TCNetStatusPacket_write :: "TCNetStatusPacket \<Rightarrow> unit js" where
  "TCNetStatusPacket_write this = throw (Error ''not supported!'')"

definition TCNetStatusPacket_length :: int where
  "TCNetStatusPacket_length = 300"

record TCNetRequestPacket =
  dataType_Request :: int
  layer_Request :: int

definition TCNetRequestPacket_read :: "TCNetRequestPacket js" where
  "TCNetRequestPacket_read =
     andThen (readUInt8 24) (\<lambda>dataType.
     andThen (readUInt8 25) (\<lambda>layer.
     return \<lparr>dataType_Request = dataType, layer_Request = layer\<rparr>))"

definition TCNetRequestPacket_write :: "TCNetRequestPacket \<Rightarrow> unit js" where
  "TCNetRequestPacket_write this =
     andThen (assert (0 \<le> dataType_Request this \<and> dataType_Request this \<le> 255)) (\<lambda>_.
     andThen (assert (0 \<le> layer_Request this \<and> layer_Request this \<le> 255)) (\<lambda>_.
     andThen (writeUInt8 (dataType_Request this) 24) (\<lambda>_.
     writeUInt8 (layer_Request this) 25)))"

definition TCNetRequestPacket_length :: int where
  "TCNetRequestPacket_length = 26"

record TCNetApplicationData =
  dataType_ApplicationData :: int
  layer_ApplicationData :: int

definition TCNetApplicationData_read :: "TCNetApplicationData js" where
  "TCNetApplicationData_read =
     andThen (readUInt8 24) (\<lambda>dataType.
     andThen (readUInt8 25) (\<lambda>layer.
     return \<lparr>dataType_ApplicationData = dataType, layer_ApplicationData = layer\<rparr>))"

definition TCNetApplicationData_write :: "TCNetApplicationData \<Rightarrow> unit js" where
  "TCNetApplicationData_write this =
     andThen (assert (0 \<le> dataType_ApplicationData this \<and> dataType_ApplicationData this \<le> 255)) (\<lambda>_.
     andThen (assert (0 \<le> layer_ApplicationData this \<and> layer_ApplicationData this \<le> 255)) (\<lambda>_.
     andThen (writeUInt8 (dataType_ApplicationData this) 24) (\<lambda>_.
     writeUInt8 (layer_ApplicationData this) 25)))"

definition TCNetApplicationData_length :: int where
  "TCNetApplicationData_length = 62"

record TCNetTimecode =
  mode_Timecode :: int
  state_Timecode :: int
  hours_Timecode :: int
  minutes_Timecode :: int
  seconds_Timecode :: int
  frames_Timecode :: int

definition TCNetTimecode_read :: "nat \<Rightarrow> TCNetTimecode js" where
  "TCNetTimecode_read offset =
     andThen (readUInt8 (offset + 0)) (\<lambda>mode.
     andThen (readUInt8 (offset + 1)) (\<lambda>state.
     andThen (readUInt8 (offset + 2)) (\<lambda>hours.
     andThen (readUInt8 (offset + 3)) (\<lambda>minutes.
     andThen (readUInt8 (offset + 4)) (\<lambda>seconds.
     andThen (readUInt8 (offset + 5)) (\<lambda>frames.
     return \<lparr>mode_Timecode = mode, state_Timecode = state, hours_Timecode = hours,
             minutes_Timecode = minutes, seconds_Timecode = seconds,
             frames_Timecode = frames\<rparr>))))))"

record TCNetTimePacket =
  layerCurrentTime_Time :: "int list"
  layerTotalTime_Time :: "int list"
  layerBeatmarker_Time :: "int list"
  layerState_Time :: "int list"
  generalSMPTEMode_Time :: int
  layerTimecode_Time :: "TCNetTimecode list"

text \<open>One pass of the loop of \<open>TCNetTimePacket.read\<close> fills index \<open>n\<close> of five arrays.\<close>

definition TCNetTimePacket_read_layer ::
  "nat \<Rightarrow> (int \<times> int \<times> int \<times> int \<times> TCNetTimecode) js" where
  "TCNetTimePacket_read_layer n =
     andThen (readUInt32LE (24 + n * 4)) (\<lambda>currentTime.
     andThen (readUInt32LE (56 + n * 4)) (\<lambda>totalTime.
     andThen (readUInt8 (88 + n)) (\<lambda>beatmarker.
     andThen (readUInt8 (96 + n)) (\<lambda>state.
     andThen (TCNetTimecode_read (106 + n * 6)) (\<lambda>timecode.
     return (currentTime, totalTime, beatmarker, state, timecode))))))"

definition TCNetTimePacket_read :: "TCNetTimePacket js" where
  "TCNetTimePacket_read =
     andThen (for_each TCNetTimePacket_read_layer [0..<8]) (\<lambda>layers.
     andThen (readUInt8 105) (\<lambda>generalSMPTEMode.
     return \<lparr>layerCurrentTime_Time = map fst layers,
             layerTotalTime_Time = map (fst \<circ> snd) layers,
             layerBeatmarker_Time = map (fst \<circ> snd \<circ> snd) layers,
             layerState_Time = map (fst \<circ> snd \<circ> snd \<circ> snd) layers,
             generalSMPTEMode_Time = generalSMPTEMode,
             layerTimecode_Time = map (snd \<circ> snd \<circ> snd \<circ> snd) layers\<rparr>))"

definition TCNetTimePacket_write :: "TCNetTimePacket \<Rightarrow> unit js" where
  "TCNetTimePacket_write this = throw (Error ''not supported!'')"

definition TCNetTimePacket_length :: int where
  "TCNetTimePacket_length = 154"

record TCNetDataPacket =
  dataType_Data :: int
  layer_Data :: int

definition TCNetDataPacket_read :: "TCNetDataPacket js" where
  "TCNetDataPacket_read =
     andThen (readUInt8 24) (\<lambda>dataType.
     andThen (readUInt8 25) (\<lambda>layer.
     return \<lparr>dataType_Data = dataType, layer_Data = layer\<rparr>))"

definition TCNetDataPacket_write :: "TCNetDataPacket \<Rightarrow> unit js" where
  "TCNetDataPacket_write this =
     andThen (assert (0 \<le> dataType_Data this \<and> dataType_Data this \<le> 255)) (\<lambda>_.
     andThen (assert (0 \<le> layer_Data this \<and> layer_Data this \<le> 255)) (\<lambda>_.
     andThen (writeUInt8 (dataType_Data this) 24) (\<lambda>_.
     writeUInt8 (layer_Data this) 25)))"

definition TCNetDataPacket_length :: int where
  "TCNetDataPacket_length = - 1"

section \<open>network.ts: the data packets\<close>

text \<open>
  \<open>bpm\<close> is \<open>this.buffer.readUInt32LE(112) / 100\<close>, a division of JavaScript numbers, that
  is of IEEE 754 doubles: the quotient is rounded to the nearest number with 53 significant
  bits, a tie going to the even significand. A double is a rational, and \<open>number_divide x d\<close>
  is that rational for integers \<open>0 \<le> x < 2^53 * d\<close> and \<open>0 < d\<close> whose quotient is zero or
  in the normal range, as it always is for an unsigned 32-bit \<open>x\<close> and \<open>d = 100\<close>:
  \<open>scale_to_53_bits\<close> doubles the dividend until the quotient has 53 bits before the binary
  point, counting the doublings, and \<open>round_half_even\<close> rounds it to an integer.
\<close>

definition round_half_even :: "int \<Rightarrow> int \<Rightarrow> int" where
  "round_half_even n d =
     (let q = n div d; r = n mod d
      in if 2 * r < d then q else if d < 2 * r then q + 1 else if even q then q else q + 1)"

function scale_to_53_bits :: "int \<Rightarrow> int \<Rightarrow> nat \<Rightarrow> int \<times> nat" where
  "scale_to_53_bits n d k =
     (if 0 < n \<and> 0 < d \<and> n < 2 ^ 52 * d then scale_to_53_bits (2 * n) d (k + 1) else (n, k))"
  by pat_completeness auto
termination
  by (relation "measure (\<lambda>(n, d, k). nat (2 ^ 52 * d - n))") auto

declare scale_to_53_bits.simps [simp del]

definition number_divide :: "int \<Rightarrow> int \<Rightarrow> rat" where
  "number_divide x d =
     (case scale_to_53_bits x d 0 of (n, k) \<Rightarrow> of_int (round_half_even n d) / 2 ^ k)"

record TCNetDataPacketMetrics =
  state_Metrics :: int
  syncMaster_Metrics :: int
  beatMarker_Metrics :: int
  trackLength_Metrics :: int
  currentPosition_Metrics :: int
  speed_Metrics :: int
  beatNumber_Metrics :: int
  bpm_Metrics :: rat
  pitchBend_Metrics :: int
  trackID_Metrics :: int

definition TCNetDataPacketMetrics_read :: "TCNetDataPacketMetrics js" where
  "TCNetDataPacketMetrics_read =
     andThen (readUInt8 27) (\<lambda>state.
     andThen (readUInt8 29) (\<lambda>syncMaster.
     andThen (readUInt8 31) (\<lambda>beatMarker.
     andThen (readUInt32LE 32) (\<lambda>trackLength.
     andThen (readUInt32LE 36) (\<lambda>currentPosition.
     andThen (readUInt32LE 40) (\<lambda>speed.
     andThen (readUInt32LE 57) (\<lambda>beatNumber.
     andThen (readUInt32LE 112) (\<lambda>raw.
     andThen (readUInt16LE 116) (\<lambda>pitchBend.
     andThen (readUInt32LE 118) (\<lambda>trackID.
     return \<lparr>state_Metrics = state, syncMaster_Metrics = syncMaster,
             beatMarker_Metrics = beatMarker, trackLength_Metrics = trackLength,
             currentPosition_Metrics = currentPosition, speed_Metrics = speed,
             beatNumber_Metrics = beatNumber, bpm_Metrics = number_divide raw 100,
             pitchBend_Metrics = pitchBend, trackID_Metrics = trackID\<rparr>))))))))))"

definition TCNetDataPacketMetrics_write :: "TCNetDataPacketMetrics \<Rightarrow> unit js" where
  "TCNetDataPacketMetrics_write this = throw (Error ''not supported!'')"

definition TCNetDataPacketMetrics_length :: int where
  "TCNetDataPacketMetrics_length = 122"

record TCNetDataPacketMetadata =
  trackArtist_Metadata :: string
  trackTitle_Metadata :: string
  trackKey_Metadata :: string
  trackID_Metadata :: int

definition TCNetDataPacketMetadata_read :: "TCNetDataPacketMetadata js" where
  "TCNetDataPacketMetadata_read =
     andThen (slice_ascii 29 285) (\<lambda>trackArtist.
     andThen (slice_ascii 285 541) (\<lambda>trackTitle.
     andThen (slice_ascii 541 566) (\<lambda>trackKey.
     andThen (readUInt32LE 543) (\<lambda>trackID.
     return \<lparr>trackArtist_Metadata = trimEnd (replace_nul_all trackArtist),
             trackTitle_Metadata = trimEnd (replace_nul_all trackTitle),
             trackKey_Metadata = replace_nul_all trackKey,
             trackID_Metadata = trackID\<rparr>))))"

definition TCNetDataPacketMetadata_write :: "TCNetDataPacketMetadata \<Rightarrow> unit js" where
  "TCNetDataPacketMetadata_write this = throw (Error ''not supported!'')"

definition TCNetDataPacketMetadata_length :: int where
  "TCNetDataPacketMetadata_length = 548"

text \<open>
  \<open>TCNetDataPacketBeatGridData.read\<close> assigns five of the declared fields and prints three
  of them.
\<close>

record TCNetDataPacketBeatGridData =
  dataSize_BeatGrid :: int
  totalPacket_BeatGrid :: int
  beatNumber_BeatGrid :: int
  beatType_BeatGrid :: int
  beatTypeTimestamp_BeatGrid :: int

definition TCNetDataPacketBeatGridData_read :: "TCNetDataPacketBeatGridData js" where
  "TCNetDataPacketBeatGridData_read =
     andThen (readUInt32LE 26) (\<lambda>dataSize.
     andThen (readUInt32LE 30) (\<lambda>totalPacket.
     andThen (readUInt16LE 42) (\<lambda>beatNumber.
     andThen (readUInt8 44) (\<lambda>beatType.
     andThen (readUInt16LE 46) (\<lambda>beatTypeTimestamp.
     andThen (console_log (number_toString dataSize @ ''datasize -- '')) (\<lambda>_.
     andThen (console_log (number_toString totalPacket @ ''totalPacket --'')) (\<lambda>_.
     andThen (console_log (number_toString beatNumber @ ''beatNumber --'')) (\<lambda>_.
     return \<lparr>dataSize_BeatGrid = dataSize, totalPacket_BeatGrid = totalPacket,
             beatNumber_BeatGrid = beatNumber, beatType_BeatGrid = beatType,
             beatTypeTimestamp_BeatGrid = beatTypeTimestamp\<rparr>))))))))"

definition TCNetDataPacketBeatGridData_write :: "TCNetDataPacketBeatGridData \<Rightarrow> unit js" where
  "TCNetDataPacketBeatGridData_write this = throw (Error ''not supported!'')"

definition TCNetDataPacketBeatGridData_length :: int where
  "TCNetDataPacketBeatGridData_length = 2442"

text \<open>
  \<open>TCNetDataPacketMixerData.read\<close> is a flat table: after \<open>mixerId\<close>, \<open>mixerType\<close> and
  \<open>mixerName\<close>, one \<open>this.name = this.buffer.readUInt8(offset)\<close> per line. The table
  lists the property names with their offsets in the order of the source; the decoded object
  holds the properties in that order.
\<close>

definition TCNetDataPacketMixerData_levels :: "(string \<times> nat) list" where
  "TCNetDataPacketMixerData_levels =
    [(''micEQHi'', 59), (''micEQLow'', 60), (''masterAudioLevel'', 61),
     (''masterFaderLevel'', 62), (''linkCueA'', 67), (''linkCueB'', 68),
     (''masterFilter'', 69), (''masterCueA'', 71), (''masterCueB'', 72),
     (''masterIsolatorOnOff'', 74), (''masterIsolatorHi'', 75), (''masterIsolatorMid'', 76),
     (''masterIsolatorLow'', 77), (''filterHPF'', 79), (''filterLPF'', 80),
     (''filterRes'', 81), (''sendFXEffect'', 84), (''sendFXExt1'', 85), (''sendFXExt2'', 86),
     (''sendFXMasterMix'', 87), (''sendFXSizeFeedback'', 88), (''sendFXTime'', 89),
     (''sendFXHPF'', 90), (''sendFXLevel'', 91), (''sendReturn3SourceSelect'', 92),
     (''sendReturn3Type'', 93), (''sendReturn3OnOff'', 94), (''sendReturn3Level'', 95),
     (''channelFaderCurve'', 97), (''crossFaderCurve'', 98), (''crossFader'', 99),
     (''beatFxOnOff'', 100), (''beatFxLevelDepth'', 101), (''beatFxChannelSelect'', 102),
     (''beatFxSelect'', 103), (''beatFxFreqHi'', 14), (''beatFxFreqMid'', 105),
     (''beatFxFreqLow'', 106), (''headphonesPreEq'', 107), (''headphonesALevel'', 108),
     (''headphonesAMix'', 109), (''headphonesBLevel'', 110), (''headphonesBMix'', 111),
     (''boothLevel'', 112), (''boothEqHi'', 113), (''boothEqLow'', 114),
     (''channel1SourceSelect'', 125), (''channel1AudioLevel'', 126),
     (''channel1FaderLevel'', 127), (''channel1TrimLevel'', 128), (''channel1CompLevel'', 129),
     (''channel1EqHiLevel'', 130), (''channel1EqHiMidLevel'', 131),
     (''channel1EqLowMidLevel'', 132), (''channel1EqLowLevel'', 133),
     (''channel1FilterColor'', 134), (''channel1Send'', 135), (''channel1CueA'', 136),
     (''channel1CueB'', 137), (''channel1CrossfaderAssign'', 138),
     (''channel2SourceSelect'', 149), (''channel2AudioLevel'', 150),
     (''channel2FaderLevel'', 151), (''channel2TrimLevel'', 152), (''channel2CompLevel'', 153),
     (''channel2EqHiLevel'', 154), (''channel2EqHiMidLevel'', 155),
     (''channel2EqLowMidLevel'', 156), (''channel2EqLowLevel'', 157),
     (''channel2FilterColor'', 158), (''channel2Send'', 159), (''channel2CueA'', 160),
     (''channel2CueB'', 161), (''channel2CrossfaderAssign'', 162),
     (''channel3SourceSelect'', 173), (''channel3AudioLevel'', 174),
     (''channel3FaderLevel'', 175), (''channel3TrimLevel'', 176), (''channel3CompLevel'', 177),
     (''channel3EqHiLevel'', 178), (''channel3EqHiMidLevel'', 179),
     (''channel3EqLowMidLevel'', 180), (''channel3EqLowLevel'', 181),
     (''channel3FilterColor'', 182), (''channel3Send'', 183), (''channel3CueA'', 184),
     (''channel3CueB'', 185), (''channel3CrossfaderAssign'', 186),
     (''channel4SourceSelect'', 197), (''channel4AudioLevel'', 198),
     (''channel4FaderLevel'', 199), (''channel4TrimLevel'', 200), (''channel4CompLevel'', 201),
     (''channel4EqHiLevel'', 202), (''channel4EqHiMidLevel'', 203),
     (''channel4EqLowMidLevel'', 204), (''channel4EqLowLevel'', 205),
     (''channel4FilterColor'', 206), (''channel4Send'', 207), (''channel4CueA'', 208),
     (''channel4CueB'', 209), (''channel4CrossfaderAssign'', 210),
     (''channel5SourceSelect'', 221), (''channel5AudioLevel'', 222),
     (''channel5FaderLevel'', 223), (''channel5TrimLevel'', 224), (''channel5CompLevel'', 225),
     (''channel5EqHiLevel'', 226), (''channel5EqHiMidLevel'', 227),
     (''channel5EqLowMidLevel'', 228), (''channel5EqLowLevel'', 229),
     (''channel5FilterColor'', 230), (''channel5Send'', 231), (''channel5CueA'', 232),
     (''channel5CueB'', 233), (''channel5CrossfaderAssign'', 234),
     (''channel6SourceSelect'', 245), (''channel6AudioLevel'', 246),
     (''channel6FaderLevel'', 247), (''channel6TrimLevel'', 248), (''channel6CompLevel'', 249),
     (''channel6EqHiLevel'', 250), (''channel6EqHiMidLevel'', 251),
     (''channel6EqLowMidLevel'', 252), (''channel6EqLowLevel'', 253),
     (''channel6FilterColor'', 254), (''channel6Send'', 255), (''channel6CueA'', 256),
     (''channel6CueB'', 257), (''channel6CrossfaderAssign'', 258)]"

record TCNetDataPacketMixerData =
  mixerId_Mixer :: int
  mixerType_Mixer :: int
  mixerName_Mixer :: string
  levels_Mixer :: "(string \<times> int) list"

definition TCNetDataPacketMixerData_read :: "TCNetDataPacketMixerData js" where
  "TCNetDataPacketMixerData_read =
     andThen (readUInt8 25) (\<lambda>mixerId.
     andThen (readUInt8 26) (\<lambda>mixerType.
     andThen (slice_ascii 27 59) (\<lambda>mixerName.
     andThen (for_each readUInt8 (map snd TCNetDataPacketMixerData_levels)) (\<lambda>levels.
     return \<lparr>mixerId_Mixer = mixerId, mixerType_Mixer = mixerType,
             mixerName_Mixer = trimEnd (replace_nul_all mixerName),
             levels_Mixer = zip (map fst TCNetDataPacketMixerData_levels) levels\<rparr>))))"

definition TCNetDataPacketMixerData_write :: "TCNetDataPacketMixerData \<Rightarrow> unit js" where
  "TCNetDataPacketMixerData_write this = throw (Error ''not supported!'')"

definition TCNetDataPacketMixerData_length :: int where
  "TCNetDataPacketMixerData_length = 270"

section \<open>How many bytes a decoder needs\<close>

text \<open>
  \<open>needs_bytes N m\<close>: the method \<open>m\<close> never changes the buffer, throws a range error on
  every buffer shorter than \<open>N\<close> bytes and returns a value on every other buffer.
\<close>

definition needs_bytes :: "nat \<Rightarrow> 'a js \<Rightarrow> bool" where
  "needs_bytes N m \<longleftrightarrow>
     (\<forall>s. fst (snd (m s)) = fst s \<and>
          (if length (fst s) < N then fst (m s) = Inl RangeError else \<not> isl (fst (m s))))"

section \<open>Lemmas on the layer state tracker\<close>

lemma arr_get_arr_set: "arr_get (arr_set xs i v) k = (if k = i then Some v else arr_get xs k)"
  by (auto simp: arr_get_def arr_set_def nth_append)

lemma update_loop_changed:
  "fst (update_loop field source i changedLayers w) =
     changedLayers @ map Suc (filter (\<lambda>k. arr_get (heap w field) k \<noteq> Some (source ! k)) [i..<length source])"
proof (induction field source i changedLayers w rule: update_loop.induct)
  case (1 field source i changedLayers w)
  show ?case
  proof (cases "i < length source")
    case False
    then show ?thesis by (simp add: update_loop.simps [of field source i])
  next
    case True
    then have up: "[i..<length source] = i # [i + 1..<length source]"
      by (simp add: upt_conv_Cons)
    show ?thesis
    proof (cases "arr_get (heap w field) i \<noteq> Some (source ! i)")
      case differ: True
      have same: "filter (\<lambda>k. arr_get (arr_set (heap w field) i (source ! i)) k \<noteq> Some (source ! k)) [i + 1..<length source]
          = filter (\<lambda>k. arr_get (heap w field) k \<noteq> Some (source ! k)) [i + 1..<length source]"
        by (rule filter_cong) (auto simp: arr_get_arr_set)
      from True differ "1.IH"(1) same show ?thesis
        by (simp add: update_loop.simps [of field source i] up)
    next
      case equal: False
      from True equal "1.IH"(2) show ?thesis
        by (simp add: update_loop.simps [of field source i] up)
    qed
  qed
qed

lemma update_loop_slot:
  "arr_get (heap (snd (update_loop field source i changedLayers w)) field) k =
     (if i \<le> k \<and> k < length source then Some (source ! k) else arr_get (heap w field) k)"
proof (induction field source i changedLayers w rule: update_loop.induct)
  case (1 field source i changedLayers w)
  show ?case
  proof (cases "i < length source")
    case False
    then show ?thesis by (auto simp: update_loop.simps [of field source i])
  next
    case True
    show ?thesis
    proof (cases "arr_get (heap w field) i \<noteq> Some (source ! i)")
      case differ: True
      from True differ "1.IH"(1) show ?thesis
        by (auto simp: update_loop.simps [of field source i] arr_get_arr_set)
    next
      case equal: False
      from True equal "1.IH"(2) show ?thesis
        by (cases "k = i") (auto simp: update_loop.simps [of field source i])
    qed
  qed
qed

lemma update_loop_frame:
  "r \<noteq> field \<Longrightarrow> heap (snd (update_loop field source i changedLayers w)) r = heap w r"
proof (induction field source i changedLayers w rule: update_loop.induct)
  case (1 field source i changedLayers w)
  then show ?case
    by (cases "i < length source"; cases "arr_get (heap w field) i \<noteq> Some (source ! i)")
       (simp_all add: update_loop.simps [of field source i])
qed

lemma update_loop_console:
  "console (snd (update_loop field source i changedLayers w)) = console w"
proof (induction field source i changedLayers w rule: update_loop.induct)
  case (1 field source i changedLayers w)
  then show ?case
    by (cases "i < length source"; cases "arr_get (heap w field) i \<noteq> Some (source ! i)")
       (simp_all add: update_loop.simps [of field source i])
qed

lemma update_changed:
  "fst (update field source w) =
     map Suc (filter (\<lambda>k. arr_get (heap w field) k \<noteq> Some (source ! k)) [0..<length source])"
  by (simp add: update_def update_loop_changed)

lemma update_slot:
  "arr_get (heap (snd (update field source w)) field) k =
     (if k < length source then Some (source ! k) else arr_get (heap w field) k)"
  by (simp add: update_def update_loop_slot)

lemma update_frame: "r \<noteq> field \<Longrightarrow> heap (snd (update field source w)) r = heap w r"
  by (simp add: update_def update_loop_frame)

lemma update_again: "fst (update field source (snd (update field source w))) = []"
  by (simp add: update_changed update_slot)

lemma new_PioneerDJState_separate:
  "trackID_field (fst (new_PioneerDJState w)) \<noteq> status_field (fst (new_PioneerDJState w))"
  by (simp add: new_PioneerDJState_def alloc_def)

lemma LayerIndex_value_range: "1 \<le> LayerIndex_value idx \<and> LayerIndex_value idx \<le> 8"
  by (cases idx) simp_all

lemmas tracker_defs = updateTrackIDs_def updateStatus_def update_def new_PioneerDJState_def
  alloc_def empty_world_def arr_get_def arr_set_def console_assert_def trackID_def status_def

section \<open>Lemmas on the decoders\<close>

lemma needs_bytes_return: "needs_bytes 0 (return x)"
  by (simp add: needs_bytes_def return_def)

lemma needs_bytes_assert: "needs_bytes 0 (assert c)"
  by (simp add: needs_bytes_def assert_def)

lemma needs_bytes_console_log: "needs_bytes 0 (console_log l)"
  by (simp add: needs_bytes_def console_log_def)

lemma needs_bytes_slice_ascii: "needs_bytes 0 (slice_ascii a b)"
  by (simp add: needs_bytes_def slice_ascii_def)

lemma needs_bytes_readUInt8: "needs_bytes (offset + 1) (readUInt8 offset)"
  by (simp add: needs_bytes_def readUInt8_def)

lemma needs_bytes_readUInt16LE: "needs_bytes (offset + 2) (readUInt16LE offset)"
  by (simp add: needs_bytes_def readUInt16LE_def)

lemma needs_bytes_readUInt32LE: "needs_bytes (offset + 4) (readUInt32LE offset)"
  by (simp add: needs_bytes_def readUInt32LE_def)

lemma needs_bytes_buffer: "needs_bytes N m \<Longrightarrow> fst (snd (m s)) = fst s"
  unfolding needs_bytes_def by blast

lemma needs_bytes_short: "needs_bytes N m \<Longrightarrow> length (fst s) < N \<Longrightarrow> fst (m s) = Inl RangeError"
  unfolding needs_bytes_def by metis

lemma needs_bytes_long: "needs_bytes N m \<Longrightarrow> N \<le> length (fst s) \<Longrightarrow> \<not> isl (fst (m s))"
  unfolding needs_bytes_def by (metis not_less)

lemma needs_bytes_andThen:
  assumes m: "needs_bytes N1 m" and f: "\<And>x. needs_bytes N2 (f x)" and N: "N = max N1 N2"
  shows "needs_bytes N (andThen m f)"
  unfolding needs_bytes_def
proof (intro allI)
  fix s
  obtain r s' where ms: "m s = (r, s')" by (cases "m s")
  from needs_bytes_buffer [OF m, of s] ms have buf: "fst s' = fst s" by simp
  show "fst (snd (andThen m f s)) = fst s \<and>
        (if length (fst s) < N then fst (andThen m f s) = Inl RangeError
         else \<not> isl (fst (andThen m f s)))"
  proof (cases "length (fst s) < N1")
    case True
    with needs_bytes_short [OF m, of s] ms have "r = Inl RangeError" by simp
    with True ms buf N show ?thesis by (simp add: andThen_def)
  next
    case False
    with needs_bytes_long [OF m, of s] ms obtain x where r: "r = Inr x" by (cases r) simp_all
    have run: "andThen m f s = f x s'" by (simp add: andThen_def ms r)
    show ?thesis
    proof (cases "length (fst s) < N2")
      case True
      with needs_bytes_short [OF f, of s' x] needs_bytes_buffer [OF f, of x s'] buf run N show ?thesis
        by simp
    next
      case long: False
      with needs_bytes_long [OF f, of s' x] needs_bytes_buffer [OF f, of x s'] buf run N False show ?thesis
        by (simp add: max_def)
    qed
  qed
qed

lemma needs_bytes_for_each:
  assumes "\<And>n. needs_bytes (g n) (body n)" and "N = foldr (\<lambda>n. max (g n)) ns 0"
  shows "needs_bytes N (for_each body ns)"
  using assms(2)
proof (induction ns arbitrary: N)
  case Nil
  then show ?case by (simp add: needs_bytes_return)
next
  case (Cons n ns)
  show ?case
    unfolding for_each.simps
  proof (rule needs_bytes_andThen [OF assms(1) _ ])
    show "needs_bytes (foldr (\<lambda>n. max (g n)) ns 0) (andThen (for_each body ns) (\<lambda>xs. return (x # xs)))" for x
      by (rule needs_bytes_andThen [OF Cons.IH [OF refl] needs_bytes_return]) simp
    show "N = max (g n) (foldr (\<lambda>n. max (g n)) ns 0)"
      using Cons.prems by simp
  qed
qed

lemmas needs_bytes_rules = needs_bytes_andThen needs_bytes_for_each needs_bytes_return needs_bytes_assert needs_bytes_console_log
  needs_bytes_slice_ascii needs_bytes_readUInt8 needs_bytes_readUInt16LE needs_bytes_readUInt32LE refl

lemma upt_8: "[0..<8] = [0, 1, 2, 3, 4, 5, 6, 7]"
  by (simp add: upt_rec)

lemma needs_bytes_Header: "needs_bytes 24 TCNetManagementHeader_read"
  unfolding TCNetManagementHeader_read_def
  by (rule needs_bytes_rules)+ simp

lemma needs_bytes_OptIn: "needs_bytes 67 TCNetOptInPacket_read"
  unfolding TCNetOptInPacket_read_def
  by (rule needs_bytes_rules)+ simp

lemma needs_bytes_OptOut: "needs_bytes 28 TCNetOptOutPacket_read"
  unfolding TCNetOptOutPacket_read_def
  by (rule needs_bytes_rules)+ simp

lemma needs_bytes_Status: "needs_bytes 85 TCNetStatusPacket_read"
  unfolding TCNetStatusPacket_read_def
  by (rule needs_bytes_rules)+ (simp add: upt_8)

lemma needs_bytes_Request: "needs_bytes 26 TCNetRequestPacket_read"
  unfolding TCNetRequestPacket_read_def
  by (rule needs_bytes_rules)+ simp

lemma needs_bytes_ApplicationData: "needs_bytes 26 TCNetApplicationData_read"
  unfolding TCNetApplicationData_read_def
  by (rule needs_bytes_rules)+ simp

lemma needs_bytes_Timecode: "needs_bytes (offset + 6) (TCNetTimecode_read offset)"
  unfolding TCNetTimecode_read_def
  by (rule needs_bytes_rules)+ simp

lemma needs_bytes_Time_layer: "needs_bytes (112 + n * 6) (TCNetTimePacket_read_layer n)"
  unfolding TCNetTimePacket_read_layer_def
  by (rule needs_bytes_rules needs_bytes_Timecode)+ simp

lemma needs_bytes_Time: "needs_bytes 154 TCNetTimePacket_read"
  unfolding TCNetTimePacket_read_def
  by (rule needs_bytes_rules needs_bytes_Time_layer)+ (simp add: upt_8)

lemma needs_bytes_Data: "needs_bytes 26 TCNetDataPacket_read"
  unfolding TCNetDataPacket_read_def
  by (rule needs_bytes_rules)+ simp

lemma needs_bytes_Metrics: "needs_bytes 122 TCNetDataPacketMetrics_read"
  unfolding TCNetDataPacketMetrics_read_def
  by (rule needs_bytes_rules)+ simp

lemma needs_bytes_Metadata: "needs_bytes 547 TCNetDataPacketMetadata_read"
  unfolding TCNetDataPacketMetadata_read_def
  by (rule needs_bytes_rules)+ simp

lemma needs_bytes_BeatGrid: "needs_bytes 48 TCNetDataPacketBeatGridData_read"
  unfolding TCNetDataPacketBeatGridData_read_def
  by (rule needs_bytes_rules)+ simp

lemma needs_bytes_Mixer: "needs_bytes 259 TCNetDataPacketMixerData_read"
  unfolding TCNetDataPacketMixerData_read_def
  by (rule needs_bytes_rules)+ (simp add: TCNetDataPacketMixerData_levels_def)

lemma uint_byte_of_int: "uint (word_of_int v :: byte) = v mod 256"
  by (simp add: uint_word_of_int_eq take_bit_eq_mod)

lemma u16_bytes: "0 \<le> v \<Longrightarrow> v \<le> 65535 \<Longrightarrow> v mod 256 + (v div 256) mod 256 * 256 = (v::int)"
  by (simp add: div_mult_mod_eq)

lemma OptOut_write_read:
  assumes "0 \<le> nodeCount_OptOut p" "nodeCount_OptOut p \<le> 65535"
    and "0 \<le> nodeListenerPort_OptOut p" "nodeListenerPort_OptOut p \<le> 65535"
    and "28 \<le> length buf"
  shows "fst (andThen (TCNetOptOutPacket_write p) (\<lambda>_. TCNetOptOutPacket_read) (buf, con)) = Inr p"
  using assms
  by (simp add: TCNetOptOutPacket_write_def TCNetOptOutPacket_read_def andThen_def
      writeUInt16LE_def readUInt16LE_def return_def uint_byte_of_int u16_bytes)

lemma Request_write_read:
  assumes "0 \<le> dataType_Request p" "dataType_Request p \<le> 255"
    and "0 \<le> layer_Request p" "layer_Request p \<le> 255"
    and "26 \<le> length buf"
  shows "fst (andThen (TCNetRequestPacket_write p) (\<lambda>_. TCNetRequestPacket_read) (buf, con)) = Inr p"
  using assms
  by (simp add: TCNetRequestPacket_write_def TCNetRequestPacket_read_def andThen_def assert_def
      writeUInt8_def readUInt8_def return_def uint_byte_of_int console_assert_def)

lemma ApplicationData_write_read:
  assumes "0 \<le> dataType_ApplicationData p" "dataType_ApplicationData p \<le> 255"
    and "0 \<le> layer_ApplicationData p" "layer_ApplicationData p \<le> 255"
    and "26 \<le> length buf"
  shows "fst (andThen (TCNetApplicationData_write p) (\<lambda>_. TCNetApplicationData_read) (buf, con)) = Inr p"
  using assms
  by (simp add: TCNetApplicationData_write_def TCNetApplicationData_read_def andThen_def assert_def
      writeUInt8_def readUInt8_def return_def uint_byte_of_int console_assert_def)

section \<open>Lemmas on the division of numbers\<close>










section \<open>Claims\<close>

subsection \<open>C1: bad magic or major version in the management header\<close>

text \<open>
  C1 says that decoding the management header fails, and yields no header, when the bytes
  at offsets 4 to 6 are not \<open>TCN\<close> or the byte at offset 2 is not 3. The source states both
  requirements with \<open>assert\<close>, but that is \<open>console.assert\<close>, which prints and goes on. On
  the 24 bytes below (major version 2, magic \<open>XYZ\<close>) \<open>read()\<close> returns a header with all
  eight fields filled, and the console holds two lines.
\<close>

theorem header_read_bad_magic_and_version:
  "TCNetManagementHeader_read
     ([1, 0, 2, 5, 88, 89, 90, 5, 78, 79, 68, 69, 0, 0, 0, 0, 1, 2, 7, 0, 0, 0, 0, 0], []) =
     (Inr \<lparr>nodeId_Header = 1, minorVersion_Header = 5, messageType_Header = 5,
            nodeName_Header = ''NODE'', seq_Header = 1, nodeType_Header = 2,
            nodeOptions_Header = 7, timestamp_Header = 0\<rparr>,
      ([1, 0, 2, 5, 88, 89, 90, 5, 78, 79, 68, 69, 0, 0, 0, 0, 1, 2, 7, 0, 0, 0, 0, 0],
       [''Assertion failed'', ''Assertion failed'']))"
  by code_simp

subsection \<open>C2: the first status update of a fresh tracker\<close>

text \<open>
  C2 says that on a freshly constructed tracker \<open>updateStatus([3,3,0,0,0,0,0,0])\<close> returns
  \<open>[1,2]\<close>. It does not: the constructor fills the status slots with \<open>-1\<close>, which differs
  from \<open>0\<close> as well as from \<open>3\<close>.
\<close>

theorem updateStatus_fresh_not_1_2:
  "fst (updateStatus (fst (new_PioneerDJState empty_world)) [3, 3, 0, 0, 0, 0, 0, 0]
         (snd (new_PioneerDJState empty_world))) \<noteq> [1, 2]"
  by (simp add: tracker_defs update_loop.simps)

text \<open>
  C2 as amended: on a freshly constructed tracker, whatever the world it is constructed in,
  \<open>updateStatus([3,3,0,0,0,0,0,0])\<close> returns all eight layers, \<open>[1,2,3,4,5,6,7,8]\<close>.
\<close>

theorem updateStatus_fresh_all_changed:
  "fst (updateStatus (fst (new_PioneerDJState w0)) [3, 3, 0, 0, 0, 0, 0, 0]
         (snd (new_PioneerDJState w0))) = [1, 2, 3, 4, 5, 6, 7, 8]"
  by (simp add: tracker_defs update_loop.simps)

subsection \<open>C3: what an update returns and stores\<close>

text \<open>
  C3: for every tracker state and every 8-element input, \<open>updateTrackIDs\<close> (and likewise
  \<open>updateStatus\<close>) returns exactly the ascending list of the indices \<open>i + 1\<close>, \<open>i\<close> from 0
  to 7, at which the stored slot differed from the input, and afterwards every slot read
  through \<open>trackID\<close> (or \<open>status\<close>) holds the input value. In particular, on a fresh tracker
  \<open>updateTrackIDs([5,5,-1,-1,-1,-1,-1,-1])\<close> returns \<open>[1,2]\<close> and \<open>trackID(Layer1)\<close> is
  then 5.
\<close>

theorem update_changed_layers:
  assumes "length src = 8"
  shows "fst (updateTrackIDs this src w) =
           map Suc (filter (\<lambda>i. arr_get (heap w (trackID_field this)) i \<noteq> Some (src ! i)) [0..<8])
       \<and> (\<forall>idx. trackID this idx (snd (updateTrackIDs this src w)) = Some (src ! (LayerIndex_value idx - 1)))
       \<and> fst (updateStatus this src w) =
           map Suc (filter (\<lambda>i. arr_get (heap w (status_field this)) i \<noteq> Some (src ! i)) [0..<8])
       \<and> (\<forall>idx. status this idx (snd (updateStatus this src w)) = Some (src ! (LayerIndex_value idx - 1)))
       \<and> fst (updateTrackIDs (fst (new_PioneerDJState w0)) [5, 5, - 1, - 1, - 1, - 1, - 1, - 1]
                (snd (new_PioneerDJState w0))) = [1, 2]
       \<and> trackID (fst (new_PioneerDJState w0)) Layer1
           (snd (updateTrackIDs (fst (new_PioneerDJState w0)) [5, 5, - 1, - 1, - 1, - 1, - 1, - 1]
                  (snd (new_PioneerDJState w0)))) = Some 5"
proof -
  have range: "LayerIndex_value idx - 1 < 8" for idx
    using LayerIndex_value_range [of idx] by arith
  have a: "fst (updateTrackIDs this src w) =
           map Suc (filter (\<lambda>i. arr_get (heap w (trackID_field this)) i \<noteq> Some (src ! i)) [0..<8])"
    using assms by (simp add: updateTrackIDs_def update_changed)
  have b: "trackID this idx (snd (updateTrackIDs this src w)) = Some (src ! (LayerIndex_value idx - 1))" for idx
    using assms range [of idx] by (simp add: trackID_def updateTrackIDs_def update_slot)
  have c: "fst (updateStatus this src w) =
           map Suc (filter (\<lambda>i. arr_get (heap w (status_field this)) i \<noteq> Some (src ! i)) [0..<8])"
    using assms by (simp add: updateStatus_def update_changed)
  have d: "status this idx (snd (updateStatus this src w)) = Some (src ! (LayerIndex_value idx - 1))" for idx
    using assms range [of idx] by (simp add: status_def updateStatus_def update_slot)
  have e: "fst (updateTrackIDs (fst (new_PioneerDJState w0)) [5, 5, - 1, - 1, - 1, - 1, - 1, - 1]
                (snd (new_PioneerDJState w0))) = [1, 2]"
    by (simp add: tracker_defs update_loop.simps)
  have f: "trackID (fst (new_PioneerDJState w0)) Layer1
           (snd (updateTrackIDs (fst (new_PioneerDJState w0)) [5, 5, - 1, - 1, - 1, - 1, - 1, - 1]
                  (snd (new_PioneerDJState w0)))) = Some 5"
    by (simp add: trackID_def updateTrackIDs_def update_slot)
  from a b c d e f show ?thesis by blast
qed

text \<open>
  Witness for C3: a fresh tracker after \<open>updateTrackIDs([5,5,-1,-1,-1,-1,-1,-1])\<close>, updated
  with \<open>[5,7,-1,-1,-1,-1,-1,9]\<close>: layers 2 and 8 change.
\<close>

theorem update_changed_layers_witness:
  "length [5, 7, - 1, - 1, - 1, - 1, - 1, 9 :: int] = 8
   \<and> fst (updateTrackIDs (fst (new_PioneerDJState empty_world)) [5, 7, - 1, - 1, - 1, - 1, - 1, 9]
        (snd (updateTrackIDs (fst (new_PioneerDJState empty_world)) [5, 5, - 1, - 1, - 1, - 1, - 1, - 1]
           (snd (new_PioneerDJState empty_world))))) = [2, 8]
   \<and> trackID (fst (new_PioneerDJState empty_world)) LayerC
        (snd (updateTrackIDs (fst (new_PioneerDJState empty_world)) [5, 7, - 1, - 1, - 1, - 1, - 1, 9]
           (snd (updateTrackIDs (fst (new_PioneerDJState empty_world)) [5, 5, - 1, - 1, - 1, - 1, - 1, - 1]
              (snd (new_PioneerDJState empty_world)))))) = Some 9"
proof -
  have len: "length [5, 7, - 1, - 1, - 1, - 1, - 1, 9 :: int] = 8" by simp
  have up: "[0..<8] = [0, 1, 2, 3, 4, 5, 6, 7]" by (simp add: upt_rec)
  have before: "heap (snd (updateTrackIDs (fst (new_PioneerDJState empty_world))
        [5, 5, - 1, - 1, - 1, - 1, - 1, - 1] (snd (new_PioneerDJState empty_world))))
      (trackID_field (fst (new_PioneerDJState empty_world)))
      = [Some 5, Some 5, Some (- 1), Some (- 1), Some (- 1), Some (- 1), Some (- 1), Some (- 1)]"
    by code_simp
  show ?thesis
    using update_changed_layers [OF len, of "fst (new_PioneerDJState empty_world)"
        "snd (updateTrackIDs (fst (new_PioneerDJState empty_world))
           [5, 5, - 1, - 1, - 1, - 1, - 1, - 1] (snd (new_PioneerDJState empty_world)))" empty_world]
    by (simp add: up before arr_get_def)
qed

subsection \<open>C7: an input of the wrong length\<close>

text \<open>
  C7 says that an input whose length is not 8 makes \<open>updateTrackIDs\<close> and \<open>updateStatus\<close>
  fail without touching a slot or returning a list. The source asserts
  \<open>source.length == 8\<close>, but with \<open>console.assert\<close>: on a fresh tracker
  \<open>updateTrackIDs([5])\<close> prints the assertion, stores 5 into slot 0 and returns \<open>[1]\<close>, and
  \<open>updateStatus\<close> with nine values returns nine layers.
\<close>

theorem update_wrong_length_goes_on:
  "fst (updateTrackIDs (fst (new_PioneerDJState empty_world)) [5] (snd (new_PioneerDJState empty_world))) = [1]
   \<and> trackID (fst (new_PioneerDJState empty_world)) Layer1
       (snd (updateTrackIDs (fst (new_PioneerDJState empty_world)) [5] (snd (new_PioneerDJState empty_world))))
       = Some 5
   \<and> console (snd (updateTrackIDs (fst (new_PioneerDJState empty_world)) [5] (snd (new_PioneerDJState empty_world))))
       = [''Assertion failed: there must be data for exactly 8 layers'']
   \<and> fst (updateStatus (fst (new_PioneerDJState empty_world)) [3, 3, 0, 0, 0, 0, 0, 0, 4]
       (snd (new_PioneerDJState empty_world))) = [1, 2, 3, 4, 5, 6, 7, 8, 9]"
  by (simp add: tracker_defs update_loop.simps)

subsection \<open>C8: the same update twice\<close>

text \<open>
  C8: for every tracker state and every 8-element array, the second of two successive calls
  of \<open>updateTrackIDs\<close> (or of \<open>updateStatus\<close>) with that array returns the empty list.
\<close>

theorem update_twice_empty:
  assumes "length src = 8"
  shows "fst (updateTrackIDs this src (snd (updateTrackIDs this src w))) = []
       \<and> fst (updateStatus this src (snd (updateStatus this src w))) = []"
  by (simp add: updateTrackIDs_def updateStatus_def update_again)

text \<open>Witness for C8: a fresh tracker; the first call returns \<open>[1, 2]\<close>, the second nothing.\<close>

theorem update_twice_empty_witness:
  "length [5, 5, - 1, - 1, - 1, - 1, - 1, - 1 :: int] = 8
   \<and> fst (updateTrackIDs (fst (new_PioneerDJState empty_world)) [5, 5, - 1, - 1, - 1, - 1, - 1, - 1]
        (snd (new_PioneerDJState empty_world))) = [1, 2]
   \<and> fst (updateTrackIDs (fst (new_PioneerDJState empty_world)) [5, 5, - 1, - 1, - 1, - 1, - 1, - 1]
        (snd (updateTrackIDs (fst (new_PioneerDJState empty_world)) [5, 5, - 1, - 1, - 1, - 1, - 1, - 1]
           (snd (new_PioneerDJState empty_world))))) = []"
proof -
  have len: "length [5, 5, - 1, - 1, - 1, - 1, - 1, - 1 :: int] = 8" by simp
  have first: "fst (updateTrackIDs (fst (new_PioneerDJState empty_world)) [5, 5, - 1, - 1, - 1, - 1, - 1, - 1]
        (snd (new_PioneerDJState empty_world))) = [1, 2]"
    by (simp add: tracker_defs update_loop.simps)
  from len first update_twice_empty [OF len, of "fst (new_PioneerDJState empty_world)"
      "snd (new_PioneerDJState empty_world)"]
  show ?thesis by blast
qed

subsection \<open>C10: an update leaves the other store alone\<close>

text \<open>
  C10: for every tracker whose two fields hold different arrays (which the constructor
  guarantees, see \<open>new_PioneerDJState_separate\<close>, and no method assigns the fields) and every
  8-element input, \<open>updateTrackIDs\<close> leaves the status of every layer as it was, and
  \<open>updateStatus\<close> leaves the track ID of every layer as it was.
\<close>

theorem update_other_store_unchanged:
  assumes "trackID_field this \<noteq> status_field this" and "length src = 8"
  shows "status this idx (snd (updateTrackIDs this src w)) = status this idx w
       \<and> trackID this idx (snd (updateStatus this src w)) = trackID this idx w"
  using assms(1) by (simp add: status_def trackID_def updateTrackIDs_def updateStatus_def update_frame)

text \<open>Witness for C10: a fresh tracker; the other store still reads \<open>-1\<close> at layer 1.\<close>

theorem update_other_store_unchanged_witness:
  "trackID_field (fst (new_PioneerDJState empty_world)) \<noteq> status_field (fst (new_PioneerDJState empty_world))
   \<and> length [5, 5, - 1, - 1, - 1, - 1, - 1, - 1 :: int] = 8
   \<and> status (fst (new_PioneerDJState empty_world)) Layer1
        (snd (updateTrackIDs (fst (new_PioneerDJState empty_world)) [5, 5, - 1, - 1, - 1, - 1, - 1, - 1]
           (snd (new_PioneerDJState empty_world)))) = Some (- 1)
   \<and> trackID (fst (new_PioneerDJState empty_world)) Layer1
        (snd (updateStatus (fst (new_PioneerDJState empty_world)) [5, 5, - 1, - 1, - 1, - 1, - 1, - 1]
           (snd (new_PioneerDJState empty_world)))) = Some (- 1)"
proof -
  have sep: "trackID_field (fst (new_PioneerDJState empty_world))
      \<noteq> status_field (fst (new_PioneerDJState empty_world))"
    by (rule new_PioneerDJState_separate)
  have len: "length [5, 5, - 1, - 1, - 1, - 1, - 1, - 1 :: int] = 8" by simp
  have before: "status (fst (new_PioneerDJState empty_world)) Layer1 (snd (new_PioneerDJState empty_world)) = Some (- 1)"
    "trackID (fst (new_PioneerDJState empty_world)) Layer1 (snd (new_PioneerDJState empty_world)) = Some (- 1)"
    by (simp_all add: tracker_defs)
  from sep len before update_other_store_unchanged [OF sep len, of Layer1 "snd (new_PioneerDJState empty_world)"]
  show ?thesis by simp
qed

subsection \<open>C4: writing a packet and reading it back\<close>

text \<open>
  C4 says that an OptIn, OptOut, Request or ApplicationData packet written to a large enough
  buffer is read back with every payload field equal, the version triple of OptIn
  included. For OptOut, Request and ApplicationData this holds (\<open>OptOut_write_read\<close>,
  \<open>Request_write_read\<close>, \<open>ApplicationData_write_read\<close>). \<open>TCNetOptInPacket.write\<close> calls
  \<open>writeUInt8(64, this.majorVersion)\<close>, value and offset exchanged, where every other call
  of the file passes the value first: an OptIn of version 1.2.3 written to 68 zero bytes puts
  the bytes 64, 65, 66 at offsets 1, 2, 3 (inside the management header), leaves offsets 64
  to 66 as they were, and is read back as version 0.0.0.
\<close>

theorem optin_write_read_loses_version:
  "andThen (TCNetOptInPacket_write
        \<lparr>nodeCount_OptIn = 1, nodeListenerPort_OptIn = 65023, uptime_OptIn = 0,
         vendorName_OptIn = ''V'', appName_OptIn = ''A'', majorVersion_OptIn = 1,
         minorVersion_OptIn = 2, bugVersion_OptIn = 3\<rparr>)
     (\<lambda>_. TCNetOptInPacket_read) (replicate 68 0, []) =
   (Inr \<lparr>nodeCount_OptIn = 1, nodeListenerPort_OptIn = 65023, uptime_OptIn = 0,
         vendorName_OptIn = ''V'', appName_OptIn = ''A'', majorVersion_OptIn = 0,
         minorVersion_OptIn = 0, bugVersion_OptIn = 0\<rparr>,
    ([0, 64, 65, 66] @ replicate 20 0 @ [1, 0, 255, 253, 0, 0, 0, 0, 86] @ replicate 15 0
       @ [65] @ replicate 19 0, []))"
  by code_simp

subsection \<open>C5: buffers shorter than the declared length\<close>

text \<open>
  C5 says that every decoder fails with \<open>TruncatedPacket\<close> on a buffer shorter than its
  \<open>length()\<close>. No \<open>read()\<close> looks at \<open>length()\<close>: the Status decoder, whose \<open>length()\<close> is
  300, decodes a buffer of 85 zero bytes, the eight layer names being slices beyond the end
  and so empty.
\<close>

theorem status_read_short_buffer_succeeds:
  "int (length (replicate 85 (0::byte))) < TCNetStatusPacket_length
   \<and> TCNetStatusPacket_read (replicate 85 0, []) =
     (Inr \<lparr>nodeCount_Status = 0, nodeListenerPort_Status = 0,
            layerSource_Status = [0, 0, 0, 0, 0, 0, 0, 0],
            layerStatus_Status = [0, 0, 0, 0, 0, 0, 0, 0],
            trackID_Status = [0, 0, 0, 0, 0, 0, 0, 0],
            smpteMode_Status = 0, autoMasterMode_Status = 0,
            layerName_Status = [[], [], [], [], [], [], [], []]\<rparr>,
      (replicate 85 0, []))"
  by code_simp

text \<open>
  C5 as amended: a decoder fails exactly when one of its integer reads is out of range,
  with the range error of \<open>Buffer\<close>, and never changes the buffer; string slices are clamped
  to the buffer, so nothing is read past its end. The Status decoder fails on every buffer
  shorter than 85 bytes, a 10-byte buffer among them, and returns a packet on every other
  buffer. The other decoders need 67 (OptIn), 28 (OptOut), 26 (Request and ApplicationData),
  154 (Time), 122 (Metrics), 547 (Metadata), 48 (BeatGrid) and 259 (Mixer) bytes.
\<close>

theorem decoders_fail_on_out_of_range_reads_only:
  "(length buf < 85 \<longrightarrow> fst (TCNetStatusPacket_read (buf, con)) = Inl RangeError)
   \<and> (length buf = 10 \<longrightarrow> fst (TCNetStatusPacket_read (buf, con)) = Inl RangeError)
   \<and> (85 \<le> length buf \<longrightarrow> \<not> isl (fst (TCNetStatusPacket_read (buf, con))))
   \<and> fst (snd (TCNetStatusPacket_read (buf, con))) = buf
   \<and> needs_bytes 67 TCNetOptInPacket_read
   \<and> needs_bytes 28 TCNetOptOutPacket_read
   \<and> needs_bytes 26 TCNetRequestPacket_read
   \<and> needs_bytes 26 TCNetApplicationData_read
   \<and> needs_bytes 154 TCNetTimePacket_read
   \<and> needs_bytes 122 TCNetDataPacketMetrics_read
   \<and> needs_bytes 547 TCNetDataPacketMetadata_read
   \<and> needs_bytes 48 TCNetDataPacketBeatGridData_read
   \<and> needs_bytes 259 TCNetDataPacketMixerData_read"
proof -
  have short: "length buf < 85 \<longrightarrow> fst (TCNetStatusPacket_read (buf, con)) = Inl RangeError"
    using needs_bytes_short [OF needs_bytes_Status, of "(buf, con)"] by simp
  then have ten: "length buf = 10 \<longrightarrow> fst (TCNetStatusPacket_read (buf, con)) = Inl RangeError"
    by simp
  have long: "85 \<le> length buf \<longrightarrow> \<not> isl (fst (TCNetStatusPacket_read (buf, con)))"
    using needs_bytes_long [OF needs_bytes_Status, of "(buf, con)"] by simp
  have same: "fst (snd (TCNetStatusPacket_read (buf, con))) = buf"
    using needs_bytes_buffer [OF needs_bytes_Status, of "(buf, con)"] by simp
  from short ten long same needs_bytes_OptIn needs_bytes_OptOut needs_bytes_Request
    needs_bytes_ApplicationData needs_bytes_Time needs_bytes_Metrics needs_bytes_Metadata
    needs_bytes_BeatGrid needs_bytes_Mixer
  show ?thesis by blast
qed

text \<open>
  Witness for C5: the Status decoder on 10 zero bytes (a range error) and on 300 zero bytes
  (a packet).
\<close>

theorem decoders_fail_on_out_of_range_reads_only_witness:
  "length (replicate 10 (0::byte)) < 85
   \<and> length (replicate 10 (0::byte)) = 10
   \<and> fst (TCNetStatusPacket_read (replicate 10 0, [])) = Inl RangeError
   \<and> 85 \<le> length (replicate 300 (0::byte))
   \<and> \<not> isl (fst (TCNetStatusPacket_read (replicate 300 0, [])))"
  using decoders_fail_on_out_of_range_reads_only [of "replicate 10 0" "[]"]
    decoders_fail_on_out_of_range_reads_only [of "replicate 300 0" "[]"]
  by simp

subsection \<open>C6: the tempo of a Metrics packet\<close>




subsection \<open>C9: writing a decode-only packet\<close>

text \<open>
  C9: \<open>write()\<close> of a Status packet, a Time packet and each of the data packets Metrics,
  Metadata, BeatGrid and Mixer throws \<open>Error("not supported!")\<close> and leaves the buffer (and the
  console) as they were, whatever the packet and the buffer.
\<close>

theorem decode_only_write_not_supported:
  "TCNetStatusPacket_write status_packet s = (Inl (Error ''not supported!''), s)
   \<and> TCNetTimePacket_write time_packet s = (Inl (Error ''not supported!''), s)
   \<and> TCNetDataPacketMetrics_write metrics s = (Inl (Error ''not supported!''), s)
   \<and> TCNetDataPacketMetadata_write metadata s = (Inl (Error ''not supported!''), s)
   \<and> TCNetDataPacketBeatGridData_write beat_grid s = (Inl (Error ''not supported!''), s)
   \<and> TCNetDataPacketMixerData_write mixer s = (Inl (Error ''not supported!''), s)"
  by (simp add: TCNetStatusPacket_write_def TCNetTimePacket_write_def
      TCNetDataPacketMetrics_write_def TCNetDataPacketMetadata_write_def
      TCNetDataPacketBeatGridData_write_def TCNetDataPacketMixerData_write_def throw_def)

end
